theory Spec2Isabelle
  imports Main
begin

section \<open>Python values and exceptions\<close>

text \<open>
  The plugin is Python 3. Exceptions that the modelled code can raise are values of
  \<open>error\<close>; a computation that may raise returns \<open>error + 'a\<close> with \<open>Inl\<close> the
  exception. \<open>and_then\<close> sequences two such computations: the second one runs only when
  the first one returned. An operation that has changed an object or the world before
  it raises returns them next to the exception, as they are at that moment.
\<close>

datatype error = IndexError | KeyError | TypeError | AttributeError

definition and_then :: "'e + 'a \<Rightarrow> ('a \<Rightarrow> 'e + 'b) \<Rightarrow> 'e + 'b" where
  "and_then r f = (case r of Inl e \<Rightarrow> Inl e | Inr x \<Rightarrow> f x)"

text \<open>\<open>xs[i]\<close> for a list and a non-negative index: IndexError out of range.\<close>

definition getitem :: "'a list \<Rightarrow> nat \<Rightarrow> error + 'a" where
  "getitem xs i = (if i < length xs then Inr (xs ! i) else Inl IndexError)"

text \<open>
  The values a decoded response can hold: \<open>None\<close>, booleans, integers, strings, lists and
  dictionaries with string keys (an association list in insertion order).
\<close>

datatype pyval =
    PNone
  | PBool bool
  | PInt int
  | PStr string
  | PList "pyval list"
  | PDict "(string \<times> pyval) list"

text \<open>Truth value of an object, as \<open>if result\<close> and \<open>result and ...\<close> test it.\<close>

fun truthy :: "pyval \<Rightarrow> bool" where
  "truthy PNone = False"
| "truthy (PBool b) = b"
| "truthy (PInt i) = (i \<noteq> 0)"
| "truthy (PStr s) = (s \<noteq> [])"
| "truthy (PList xs) = (xs \<noteq> [])"
| "truthy (PDict kvs) = (kvs \<noteq> [])"

text \<open>
  \<open>result[key]\<close> with a string key: a dictionary answers or raises KeyError, every other
  object raises TypeError (a list or a string wants an integer index, the others are
  not subscriptable).
\<close>

fun subscript :: "pyval \<Rightarrow> string \<Rightarrow> error + pyval" where
  "subscript (PDict kvs) k = (case map_of kvs k of None \<Rightarrow> Inl KeyError | Some v \<Rightarrow> Inr v)"
| "subscript v k = Inl TypeError"

section \<open>String operations\<close>

text \<open>\<open>str(n)\<close> for an integer: decimal digits, with a minus sign when negative.\<close>

fun str_nat :: "nat \<Rightarrow> string" where
  "str_nat n =
     (if n < 10 then [''0123456789'' ! n]
      else str_nat (n div 10) @ [''0123456789'' ! (n mod 10)])"

declare str_nat.simps [simp del]

definition str_int :: "int \<Rightarrow> string" where
  "str_int i = (if i < 0 then CHR ''-'' # str_nat (nat (- i)) else str_nat (nat i))"

text \<open>
  \<open>s.rsplit(c, 1)\<close>: at most one split, at the last occurrence of \<open>c\<close>; a string without
  \<open>c\<close> comes back as the only element.
\<close>

definition rsplit1 :: "char \<Rightarrow> string \<Rightarrow> string list" where
  "rsplit1 c s =
     (if c \<in> set s
      then [rev (drop 1 (dropWhile (\<lambda>x. x \<noteq> c) (rev s))), rev (takeWhile (\<lambda>x. x \<noteq> c) (rev s))]
      else [s])"

text \<open>\<open>s.split(c)\<close>: split at every occurrence of \<open>c\<close>; the empty string gives \<open>['']\<close>.\<close>

fun split :: "char \<Rightarrow> string \<Rightarrow> string list" where
  "split c [] = [[]]"
| "split c (x # xs) =
     (if x = c then [] # split c xs
      else (case split c xs of [] \<Rightarrow> [[x]] | y # ys \<Rightarrow> (x # y) # ys))"

section \<open>The editor's objects\<close>

text \<open>
  A window of the editor, as the plugin reads it: \<open>window.window_id\<close>,
  \<open>window.project_file_name()\<close> (\<open>None\<close> without a project file), \<open>window.folders()\<close>, and
  the settings of its active view.
\<close>

record window =
  window_id :: int
  project_file_name :: "string option"
  folders :: "string list"
  view_settings :: "(string \<times> string) list"

section \<open>Project name\<close>

text \<open>
  \<open>Worker.generate_project_name\<close>. Both \<open>rsplit('/', 1)[1]\<close> raise IndexError on a path
  without \<open>/\<close>.
\<close>

definition generate_project_name :: "window \<Rightarrow> error + string" where
  "generate_project_name w =
     (case project_file_name w of
        None \<Rightarrow>
          (if length (folders w) > 0
           then and_then (getitem (folders w) 0) (\<lambda>f. getitem (rsplit1 CHR ''/'' f) 1)
           else Inr (''anaconda-'' @ str_int (window_id w)))
      | Some project_name \<Rightarrow>
          and_then (getitem (rsplit1 CHR ''/'' project_name) 1)
            (\<lambda>b. getitem (split CHR ''.'' b) 0))"

section \<open>Views\<close>

text \<open>
  A view of the editor, as the plugin reads it: its text buffer, \<open>view.file_name()\<close>
  (\<open>None\<close> for a buffer that was never saved) and \<open>view.window()\<close>. The editor's
  \<open>view.size()\<close> is the length of the buffer, \<open>view.substr(Region(a, b))\<close> the text
  between two points, and \<open>view.rowcol(point)\<close> the row and column of a point, both
  counted from zero: the row is the number of newlines before the point, the column the
  number of characters after the last of them.
\<close>

record view =
  buffer :: string
  file_name :: "string option"
  window :: window

definition view_size :: "view \<Rightarrow> nat" where
  "view_size v = length (buffer v)"

definition substr :: "view \<Rightarrow> nat \<Rightarrow> nat \<Rightarrow> string" where
  "substr v a b = take (b - a) (drop a (buffer v))"

definition rowcol :: "view \<Rightarrow> nat \<Rightarrow> nat \<times> nat" where
  "rowcol v point =
     (let pre = take point (buffer v)
      in (count_list pre (CHR 0x0A),
          length (takeWhile (\<lambda>c. c \<noteq> CHR 0x0A) (rev pre))))"

section \<open>The operating system and the backend\<close>

text \<open>
  What the plugin does to the world outside is kept in a record: the sockets it has
  bound (the operating system answers the n-th \<open>bind(('', 0))\<close> with the port
  \<open>free_ports n\<close>), every \<open>subprocess.Popen\<close> object it has created, every channel it
  has opened, and every request it has sent. A process or channel handle is the index of
  its entry.
\<close>

record popen =
  args :: "string list"
  cwd :: string
  bufsize :: int
  startupinfo :: bool
  running :: bool
  terminate_calls :: nat

record channel =
  host :: string
  channel_port :: int
  closed :: bool

record world =
  free_ports :: "nat \<Rightarrow> int"
  sockets :: nat
  procs :: "popen list"
  clients :: "channel list"
  sent :: "(nat \<times> string \<times> (string \<times> pyval) list) list"
  backend :: "nat \<Rightarrow> string \<Rightarrow> (string \<times> pyval) list \<Rightarrow> pyval"
  getpid :: int
  platform :: string
  script_path :: string
  install_dir :: string

text \<open>
  \<open>script_path\<close> is the value of
  \<open>os.path.join(os.path.dirname(__file__), 'anaconda_server/jsonserver.py')\<close> and
  \<open>install_dir\<close> that of \<open>os.path.dirname(os.path.abspath(__file__))\<close>.
\<close>

text \<open>\<open>Worker.port\<close>: bind a socket to port 0, read the port back, close the socket.\<close>

definition Worker_port :: "world \<Rightarrow> int \<times> world" where
  "Worker_port s = (free_ports s (sockets s), s\<lparr>sockets := Suc (sockets s)\<rparr>)"

text \<open>\<open>subprocess.Popen(sub_args, cwd=..., bufsize=..., startupinfo=...)\<close>.\<close>

definition Popen :: "string list \<Rightarrow> string \<Rightarrow> int \<Rightarrow> bool \<Rightarrow> world \<Rightarrow> nat \<times> world" where
  "Popen sub_args dir buf si s =
     (length (procs s),
      s\<lparr>procs := procs s @
          [\<lparr>args = sub_args, cwd = dir, bufsize = buf, startupinfo = si,
            running = True, terminate_calls = 0\<rparr>]\<rparr>)"

text \<open>\<open>Popen.terminate()\<close>: the signal is sent at every call.\<close>

definition terminate :: "nat \<Rightarrow> world \<Rightarrow> world" where
  "terminate h s =
     s\<lparr>procs := (procs s)[h := (procs s ! h)
          \<lparr>running := False, terminate_calls := Suc (terminate_calls (procs s ! h))\<rparr>]\<rparr>"

text \<open>
  Modelled from the spec: the class \<open>Client\<close> of \<open>anaconda.anaconda_client\<close>, which
  is not among the sources. The spec calls it the Request Channel: it is bound to a host
  and a port, \<open>request(operation, payload)\<close> sends one request and returns the decoded
  response (\<open>None\<close> when there is none), and \<open>close()\<close> releases it.
\<close>

definition Client :: "string \<Rightarrow> int \<Rightarrow> world \<Rightarrow> nat \<times> world" where
  "Client h p s =
     (length (clients s),
      s\<lparr>clients := clients s @ [\<lparr>host = h, channel_port = p, closed = False\<rparr>]\<rparr>)"

definition close :: "nat \<Rightarrow> world \<Rightarrow> world" where
  "close c s = s\<lparr>clients := (clients s)[c := (clients s ! c)\<lparr>closed := True\<rparr>]\<rparr>"

definition request ::
  "nat \<Rightarrow> string \<Rightarrow> (string \<times> pyval) list \<Rightarrow> world \<Rightarrow> pyval \<times> world" where
  "request c method data s = (backend s c method data, s\<lparr>sent := sent s @ [(c, method, data)]\<rparr>)"

text \<open>
  Modelled from the spec: \<open>get_settings\<close> of \<open>anaconda.utils\<close>, which is not among the
  sources. The spec gives \<open>getSetting(activeViewContext, key, default) -> value\<close>: the
  value configured under the key, the default without one. The window carries the
  settings of its active view.
\<close>

definition get_settings :: "window \<Rightarrow> string \<Rightarrow> string \<Rightarrow> string" where
  "get_settings w name dflt =
     (case map_of (view_settings w) name of None \<Rightarrow> dflt | Some v \<Rightarrow> v)"

text \<open>
  \<open>pipes.quote\<close> of the standard library: the empty string becomes two quotes, a string
  of letters, digits and \<open>_@%+=:,./-\<close> is returned as it is, any other one is wrapped
  in single quotes, each single quote inside replaced by \<open>'"'"'\<close>.
\<close>

definition safe_char :: "char \<Rightarrow> bool" where
  "safe_char c =
     (c \<in> set ''abcdefghijklmnopqrstuvwxyzABCDEFGHIJKLMNOPQRSTUVWXYZ0123456789_@%+=:,./-'')"

definition pipes_quote :: "string \<Rightarrow> string" where
  "pipes_quote s =
     (if s = [] then [CHR 0x27, CHR 0x27]
      else if list_all safe_char s then s
      else [CHR 0x27] @
           concat (map (\<lambda>c. if c = CHR 0x27
                              then [CHR 0x27, CHR 0x22, CHR 0x27, CHR 0x22, CHR 0x27]
                              else [c]) s) @
           [CHR 0x27])"

section \<open>The Worker\<close>

text \<open>
  The attributes of a \<open>Worker\<close> object. \<open>proccess\<close> is the attribute the constructor,
  \<open>restart\<close> and the test in \<open>stop\<close> use; \<open>process\<close> is the attribute that the last line
  of \<open>stop\<close> assigns, which nothing reads. \<open>port\<close> is \<open>None\<close> until \<open>start_worker\<close>
  assigns the instance attribute.
\<close>

record worker =
  view :: view
  client :: "nat option"
  proccess :: "nat option"
  process :: "nat option"
  port :: "int option"

text \<open>
  The loop of \<open>start_worker\<close> over \<open>extra_paths.split(',')\<close>, extending \<open>sub_args\<close>.
\<close>

fun extend_extra_paths :: "string list \<Rightarrow> string list \<Rightarrow> string list" where
  "extend_extra_paths sub_args [] = sub_args"
| "extend_extra_paths sub_args (extra_path # rest) =
     (if extra_path \<noteq> []
      then extend_extra_paths (sub_args @ [''-e'', extra_path]) rest
      else extend_extra_paths sub_args rest)"

text \<open>
  \<open>Worker.start_worker\<close>. The port is allocated and assigned before the project name
  is computed: when \<open>generate_project_name\<close> raises, the socket has been bound and
  \<open>self.port\<close> has changed, and nothing has been spawned.
\<close>

definition start_worker ::
  "worker \<Rightarrow> world \<Rightarrow> (error \<times> worker \<times> world) + (nat \<times> worker \<times> world)" where
  "start_worker self s =
     (let (p, s1) = Worker_port s;
          self1 = self\<lparr>port := Some p\<rparr>;
          w = window (view self1)
      in case generate_project_name w of
           Inl e \<Rightarrow> Inl (e, self1, s1)
         | Inr project_name \<Rightarrow>
             (let interp = get_settings w ''python_interpreter'' ''python'';
                  extra_paths = get_settings w ''extra_paths'' [];
                  si = (platform s1 = ''windows'');
                  WORKER_SCRIPT = pipes_quote (script_path s1);
                  sub_args = [interp, ''-B'', WORKER_SCRIPT, ''-p'', project_name, str_int p];
                  sub_args = extend_extra_paths sub_args (split CHR '','' extra_paths);
                  sub_args = sub_args @ [str_int (getpid s1)];
                  (h, s2) = Popen sub_args (install_dir s1) (- 1) si s1
              in Inr (h, self1, s2)))"

text \<open>
  \<open>Worker.restart\<close>: start a backend, then open a channel to \<open>self.port\<close>. The method
  reads the attribute after \<open>start_worker\<close> has assigned it; the branch for an
  unassigned one is never taken.
\<close>

definition restart ::
  "worker \<Rightarrow> world \<Rightarrow> (error \<times> worker \<times> world) + (worker \<times> world)" where
  "restart self s =
     and_then (start_worker self s) (\<lambda>(h, self1, s1).
       let self2 = self1\<lparr>proccess := Some h\<rparr>
       in case port self2 of
            None \<Rightarrow> Inl (TypeError, self2, s1)
          | Some p \<Rightarrow>
              (let (c, s2) = Client ''localhost'' p s1
               in Inr (self2\<lparr>client := Some c\<rparr>, s2)))"

text \<open>
  \<open>Worker.__init__\<close>. When \<open>restart\<close> raises, the object under construction is lost
  and the world stays as \<open>restart\<close> left it.
\<close>

definition Worker_init :: "view \<Rightarrow> world \<Rightarrow> (error \<times> world) + (worker \<times> world)" where
  "Worker_init v s =
     (case restart \<lparr>view = v, client = None, proccess = None, process = None, port = None\<rparr> s of
        Inl (e, self1, s1) \<Rightarrow> Inl (e, s1)
      | Inr r \<Rightarrow> Inr r)"

text \<open>
  \<open>Worker.stop\<close>. The second branch tests \<open>self.proccess\<close> and then assigns
  \<open>self.process\<close>.
\<close>

definition stop :: "worker \<Rightarrow> world \<Rightarrow> worker \<times> world" where
  "stop self s =
     (let (self1, s1) =
            (case client self of
               Some c \<Rightarrow> (self\<lparr>client := None\<rparr>, close c s)
             | None \<Rightarrow> (self, s));
          (self2, s2) =
            (case proccess self1 of
               Some h \<Rightarrow> (self1\<lparr>process := None\<rparr>, terminate h s1)
             | None \<Rightarrow> (self1, s1))
      in (self2, s2))"

text \<open>
  Modelled from the spec: the decorator \<open>executor\<close> of \<open>anaconda.decorators\<close>, which is
  not among the sources. The spec has it run the call on another thread and hand the
  result back; \<open>on_query_completions\<close> uses what the decorated method returns as the
  proposals, so the decorated method returns what its body returns.
\<close>

definition executor :: "'a \<Rightarrow> 'a" where
  "executor f = f"

text \<open>
  The request that \<open>Worker.autocomplete\<close> builds; \<open>self.view.file_name() or ''\<close> is the
  file name unless that is \<open>None\<close> or empty.
\<close>

definition autocomplete_data :: "view \<Rightarrow> nat \<Rightarrow> (string \<times> pyval) list" where
  "autocomplete_data v location =
     (let (current_line, current_column) = rowcol v location
      in [(''source'', PStr (substr v 0 (view_size v))),
          (''line'', PInt (int current_line + 1)),
          (''offset'', PInt (int current_column)),
          (''filename'', PStr (case file_name v of
                                 None \<Rightarrow> []
                               | Some f \<Rightarrow> if f \<noteq> [] then f else []))])"

text \<open>
  The last two lines of both operations:
  \<open>if result and result['success'] is True: return result[key]\<close>, and \<open>None\<close> by
  falling off the end otherwise.
\<close>

definition payload :: "pyval \<Rightarrow> string \<Rightarrow> error + pyval" where
  "payload result key =
     (if truthy result
      then and_then (subscript result ''success'') (\<lambda>flag.
             if flag = PBool True then subscript result key else Inr PNone)
      else Inr PNone)"

text \<open>
  \<open>Worker.autocomplete\<close> and \<open>Worker.run_linter\<close>. On a stopped Worker \<open>self.client\<close> is
  \<open>None\<close> and \<open>self.client.request\<close> raises AttributeError before anything is sent; an
  exception raised while the response is read comes after the request has been sent.
\<close>

definition autocomplete ::
  "worker \<Rightarrow> nat \<Rightarrow> world \<Rightarrow> (error \<times> world) + (pyval \<times> world)" where
  "autocomplete = executor (\<lambda>self location s.
     let data = autocomplete_data (view self) location
     in case client self of
          None \<Rightarrow> Inl (AttributeError, s)
        | Some c \<Rightarrow>
            (let (result, s1) = request c ''autocomplete'' data s
             in case payload result ''completions'' of
                  Inl e \<Rightarrow> Inl (e, s1)
                | Inr r \<Rightarrow> Inr (r, s1)))"

definition run_linter ::
  "worker \<Rightarrow> pyval \<Rightarrow> pyval \<Rightarrow> pyval \<Rightarrow> world \<Rightarrow> (error \<times> world) + (pyval \<times> world)" where
  "run_linter = executor (\<lambda>self text settings filename s.
     let data = [(''code'', text), (''settings'', settings), (''filename'', filename)]
     in case client self of
          None \<Rightarrow> Inl (AttributeError, s)
        | Some c \<Rightarrow>
            (let (result, s1) = request c ''run_linter'' data s
             in case payload result ''errors'' of
                  Inl e \<Rightarrow> Inl (e, s1)
                | Inr r \<Rightarrow> Inr (r, s1)))"

section \<open>The registry\<close>

text \<open>
  \<open>WORKERS\<close> maps a window id to its Worker. \<open>Worker.lookup\<close> run by one thread alone:
  the test, the construction and the assignment under the lock, the final read. The
  registry holds the Worker's attributes as they are when it is stored. When the
  construction raises, nothing is assigned and the exception leaves \<open>lookup\<close>.
\<close>

type_synonym registry = "int \<rightharpoonup> worker"

definition lookup ::
  "view \<Rightarrow> registry \<Rightarrow> world \<Rightarrow>
     (error \<times> registry \<times> world) + (worker \<times> registry \<times> world)" where
  "lookup v WORKERS s =
     (let w = window v
      in and_then
           (if WORKERS (window_id w) = None
            then (case Worker_init v s of
                    Inl (e, s1) \<Rightarrow> Inl (e, WORKERS, s1)
                  | Inr (new, s1) \<Rightarrow> Inr (WORKERS(window_id w \<mapsto> new), s1))
            else Inr (WORKERS, s))
           (\<lambda>(WORKERS1, s1).
              case WORKERS1 (window_id w) of
                None \<Rightarrow> Inl (KeyError, WORKERS1, s1)
              | Some found \<Rightarrow> Inr (found, WORKERS1, s1)))"

section \<open>Concurrent lookups\<close>

text \<open>
  Several threads inside \<open>Worker.lookup\<close>, one statement at a time. A thread is at the
  test \<open>window.window_id not in WORKERS\<close>, at \<open>with WORKERS_LOCK\<close> (where it waits
  while another thread owns the lock), at the assignment \<open>WORKERS[...] = Worker(view)\<close>,
  at the end of the \<open>with\<close> block, or at \<open>return WORKERS[...]\<close>; then it has returned a
  Worker or raised. An exception inside the \<open>with\<close> block releases the lock.
\<close>

datatype pc =
    At_test
  | At_with
  | At_assign
  | At_release
  | At_return
  | Returned worker
  | Raised error

record system =
  WORKERS :: registry
  WORKERS_LOCK :: "nat option"
  threads :: "(view \<times> pc) list"
  os :: world

definition goto :: "nat \<Rightarrow> pc \<Rightarrow> system \<Rightarrow> system" where
  "goto i l sys = sys\<lparr>threads := (threads sys)[i := (fst (threads sys ! i), l)]\<rparr>"

definition step :: "nat \<Rightarrow> system \<Rightarrow> system" where
  "step i sys =
     (if i < length (threads sys)
      then
        (let (v, l) = threads sys ! i; k = window_id (window v)
         in case l of
              At_test \<Rightarrow>
                goto i (if WORKERS sys k = None then At_with else At_return) sys
            | At_with \<Rightarrow>
                (if WORKERS_LOCK sys = None
                 then goto i At_assign (sys\<lparr>WORKERS_LOCK := Some i\<rparr>)
                 else sys)
            | At_assign \<Rightarrow>
                (case Worker_init v (os sys) of
                   Inl (e, s1) \<Rightarrow> goto i (Raised e) (sys\<lparr>WORKERS_LOCK := None, os := s1\<rparr>)
                 | Inr (new, s1) \<Rightarrow>
                     goto i At_release (sys\<lparr>WORKERS := (WORKERS sys)(k \<mapsto> new), os := s1\<rparr>))
            | At_release \<Rightarrow> goto i At_return (sys\<lparr>WORKERS_LOCK := None\<rparr>)
            | At_return \<Rightarrow>
                (case WORKERS sys k of
                   None \<Rightarrow> goto i (Raised KeyError) sys
                 | Some found \<Rightarrow> goto i (Returned found) sys)
            | Returned found \<Rightarrow> sys
            | Raised e \<Rightarrow> sys)
      else sys)"

text \<open>A schedule names the thread that takes each step.\<close>

fun run :: "nat list \<Rightarrow> system \<Rightarrow> system" where
  "run [] sys = sys"
| "run (i # schedule) sys = run schedule (step i sys)"

definition enter :: "view list \<Rightarrow> registry \<Rightarrow> world \<Rightarrow> system" where
  "enter vs reg s =
     \<lparr>WORKERS = reg, WORKERS_LOCK = None, threads = map (\<lambda>v. (v, At_test)) vs, os = s\<rparr>"

section \<open>The specification's words\<close>

text \<open>
  The specification describes the project name through the base name of a path and the
  stripping of its extension. These follow its words, not the code: the base name is
  what follows the last \<open>/\<close>, and stripping the extension removes the last \<open>.\<close> and
  what follows it. \<open>before_first_dot\<close> is what the code computes instead.
\<close>

definition basename :: "string \<Rightarrow> string" where
  "basename p = rev (takeWhile (\<lambda>x. x \<noteq> CHR ''/'') (rev p))"

definition strip_extension :: "string \<Rightarrow> string" where
  "strip_extension b =
     (if CHR ''.'' \<in> set b
      then rev (drop 1 (dropWhile (\<lambda>x. x \<noteq> CHR ''.'') (rev b)))
      else b)"

definition before_first_dot :: "string \<Rightarrow> string" where
  "before_first_dot b = takeWhile (\<lambda>x. x \<noteq> CHR ''.'') b"

text \<open>
  The specification's failed or absent Response: no response at all, or one that
  carries a success flag that is not \<open>True\<close>.
\<close>

fun failed_response :: "pyval \<Rightarrow> bool" where
  "failed_response PNone = True"
| "failed_response (PDict kvs) =
     (case map_of kvs ''success'' of None \<Rightarrow> False | Some flag \<Rightarrow> flag \<noteq> PBool True)"
| "failed_response v = False"

section \<open>A window, a view and a world to run the code on\<close>

definition example_window :: window where
  "example_window =
     \<lparr>window_id = 7, project_file_name = Some ''/home/u/proj.sublime-project'',
      folders = [], view_settings = [(''extra_paths'', ''/opt/lib,,/srv/py'')]\<rparr>"

definition example_view :: view where
  "example_view =
     \<lparr>buffer = ''import os'' @ [CHR 0x0A] @ ''os.'', file_name = None,
      window = example_window\<rparr>"

definition example_backend :: "nat \<Rightarrow> string \<Rightarrow> (string \<times> pyval) list \<Rightarrow> pyval" where
  "example_backend c method data =
     (if method = ''autocomplete''
      then PDict [(''success'', PBool True),
                  (''completions'', PList [PStr ''path'', PStr ''getcwd''])]
      else PDict [(''success'', PBool False)])"

definition example_world :: world where
  "example_world =
     \<lparr>free_ports = (\<lambda>n. 50000 + int n), sockets = 0, procs = [], clients = [], sent = [],
      backend = example_backend, getpid = 4242, platform = ''linux'',
      script_path = ''/opt/st3/Packages/anaconda/anaconda_server/jsonserver.py'',
      install_dir = ''/opt/st3/Packages/anaconda''\<rparr>"

text \<open>A backend that never answers a completion request and fails every other one.\<close>

definition failing_backend :: "nat \<Rightarrow> string \<Rightarrow> (string \<times> pyval) list \<Rightarrow> pyval" where
  "failing_backend c method data =
     (if method = ''autocomplete'' then PNone else PDict [(''success'', PBool False)])"

text \<open>
  The Worker that \<open>Worker(example_view)\<close> constructs in \<open>example_world\<close>, and the world
  after its construction.
\<close>

definition example_worker :: worker where
  "example_worker =
     \<lparr>view = example_view, client = Some 0, proccess = Some 0, process = None,
      port = Some 50000\<rparr>"

definition example_popen :: "string \<Rightarrow> popen" where
  "example_popen p =
     \<lparr>args = [''python'', ''-B'',
              ''/opt/st3/Packages/anaconda/anaconda_server/jsonserver.py'',
              ''-p'', ''proj'', p, ''-e'', ''/opt/lib'', ''-e'', ''/srv/py'', ''4242''],
      cwd = ''/opt/st3/Packages/anaconda'', bufsize = - 1, startupinfo = False,
      running = True, terminate_calls = 0\<rparr>"

definition example_started :: world where
  "example_started =
     example_world
       \<lparr>sockets := 1,
        procs := [example_popen ''50000''],
        clients := [\<lparr>host = ''localhost'', channel_port = 50000, closed = False\<rparr>]\<rparr>"



definition spaced_script :: string where
  "spaced_script =
     ''/Users/u/Library/Application Support/Sublime Text 3/Packages/anaconda/anaconda_server/jsonserver.py''"

definition spaced_world :: world where
  "spaced_world =
     example_world
       \<lparr>script_path := spaced_script,
        install_dir :=
          ''/Users/u/Library/Application Support/Sublime Text 3/Packages/anaconda''\<rparr>"

section \<open>Facts about the operations\<close>

lemma getitem_Cons_0: "getitem (x # xs) 0 = Inr x"
  by (simp add: getitem_def)

lemma getitem_rsplit1_found:
  "c \<in> set s \<Longrightarrow> getitem (rsplit1 c s) (Suc 0) = Inr (rev (takeWhile (\<lambda>x. x \<noteq> c) (rev s)))"
  by (simp add: getitem_def rsplit1_def)

lemma getitem_rsplit1_missing:
  "c \<notin> set s \<Longrightarrow> getitem (rsplit1 c s) (Suc 0) = Inl IndexError"
  by (simp add: getitem_def rsplit1_def)

lemma split_first: "\<exists>rest. split c s = takeWhile (\<lambda>x. x \<noteq> c) s # rest"
  by (induction s) auto

lemma getitem_split_0: "getitem (split c s) 0 = Inr (takeWhile (\<lambda>x. x \<noteq> c) s)"
  using split_first [of c s] by (auto simp: getitem_def)

lemma str_int_7: "str_int 7 = ''7''"
  by (simp add: str_int_def str_nat.simps)

lemma extend_extra_paths_eq:
  "extend_extra_paths acc xs =
     acc @ concat (map (\<lambda>e. [''-e'', e]) (filter (\<lambda>e. e \<noteq> []) xs))"
  by (induction xs arbitrary: acc) simp_all

lemma start_worker_returns:
  assumes "generate_project_name (window (view self)) = Inr project_name"
  shows "start_worker self s =
     Inr (length (procs s),
          self\<lparr>port := Some (free_ports s (sockets s))\<rparr>,
          s\<lparr>sockets := Suc (sockets s),
            procs := procs s @
              [\<lparr>args =
                  [get_settings (window (view self)) ''python_interpreter'' ''python'',
                   ''-B'', pipes_quote (script_path s), ''-p'', project_name,
                   str_int (free_ports s (sockets s))] @
                  concat (map (\<lambda>e. [''-e'', e])
                    (filter (\<lambda>e. e \<noteq> [])
                      (split CHR '','' (get_settings (window (view self)) ''extra_paths'' [])))) @
                  [str_int (getpid s)],
                cwd = install_dir s, bufsize = - 1,
                startupinfo = (platform s = ''windows''),
                running = True, terminate_calls = 0\<rparr>]\<rparr>)"
  using assms
  by (simp add: start_worker_def Worker_port_def Popen_def Let_def extend_extra_paths_eq)


lemma example_project_name: "generate_project_name example_window = Inr ''proj''"
  by (simp add: generate_project_name_def example_window_def and_then_def getitem_def
      rsplit1_def)

lemma str_int_50000: "str_int 50000 = ''50000''"
  by (simp add: str_int_def str_nat.simps)

lemma str_int_50001: "str_int 50001 = ''50001''"
  by (simp add: str_int_def str_nat.simps)

lemma str_int_4242: "str_int 4242 = ''4242''"
  by (simp add: str_int_def str_nat.simps)

lemma example_script_quoted:
  "pipes_quote ''/opt/st3/Packages/anaconda/anaconda_server/jsonserver.py'' =
     ''/opt/st3/Packages/anaconda/anaconda_server/jsonserver.py''"
  by (simp add: pipes_quote_def safe_char_def)

lemma example_extra_paths:
  "split CHR '','' ''/opt/lib,,/srv/py'' = [''/opt/lib'', [], ''/srv/py'']"
  by simp

lemma restart_returns:
  assumes "generate_project_name (window (view self)) = Inr project_name"
  shows "restart self s =
     Inr (self\<lparr>port := Some (free_ports s (sockets s)),
               proccess := Some (length (procs s)),
               client := Some (length (clients s))\<rparr>,
          s\<lparr>sockets := Suc (sockets s),
            procs := procs s @
              [\<lparr>args =
                  [get_settings (window (view self)) ''python_interpreter'' ''python'',
                   ''-B'', pipes_quote (script_path s), ''-p'', project_name,
                   str_int (free_ports s (sockets s))] @
                  concat (map (\<lambda>e. [''-e'', e])
                    (filter (\<lambda>e. e \<noteq> [])
                      (split CHR '','' (get_settings (window (view self)) ''extra_paths'' [])))) @
                  [str_int (getpid s)],
                cwd = install_dir s, bufsize = - 1,
                startupinfo = (platform s = ''windows''),
                running = True, terminate_calls = 0\<rparr>],
            clients := clients s @
              [\<lparr>host = ''localhost'', channel_port = free_ports s (sockets s),
                closed = False\<rparr>]\<rparr>)"
  by (simp add: restart_def start_worker_returns [OF assms] and_then_def Client_def)



lemma stop_world:
  "sockets (snd (stop self s)) = sockets s \<and>
   free_ports (snd (stop self s)) = free_ports s \<and>
   length (procs (snd (stop self s))) = length (procs s) \<and>
   length (clients (snd (stop self s))) = length (clients s)"
  by (simp add: stop_def close_def terminate_def split: option.splits)

lemma example_worker_name:
  "generate_project_name (window (view example_worker)) = Inr ''proj''"
  by (simp add: example_worker_def example_view_def example_project_name)

lemma Worker_init_example:
  "Worker_init example_view example_world = Inr (example_worker, example_started)"
proof -
  have "generate_project_name
          (window (view \<lparr>view = example_view, client = None, proccess = None,
                         process = None, port = None\<rparr>)) = Inr ''proj''"
    by (simp add: example_view_def example_project_name)
  from restart_returns [OF this, of example_world] show ?thesis
    by (simp add: Worker_init_def example_worker_def example_started_def
        example_world_def example_popen_def example_view_def example_window_def
        get_settings_def str_int_50000 str_int_4242 example_script_quoted)
qed

lemma stop_keeps_proccess: "proccess (fst (stop self s)) = proccess self"
  by (simp add: stop_def split: option.splits)

lemma stop_terminates:
  assumes "proccess self = Some h" and "h < length (procs s)"
  shows "terminate_calls (procs (snd (stop self s)) ! h) = Suc (terminate_calls (procs s ! h))"
  using assms by (simp add: stop_def close_def terminate_def split: option.splits)

lemma stop_stop_terminates_twice:
  assumes "proccess self = Some h" and "h < length (procs s)"
  shows "terminate_calls (procs (snd (stop (fst (stop self s)) (snd (stop self s)))) ! h) =
           terminate_calls (procs s ! h) + 2"
proof -
  have "proccess (fst (stop self s)) = Some h"
    using assms(1) by (simp add: stop_keeps_proccess)
  moreover have "h < length (procs (snd (stop self s)))"
    using assms(2) by (simp add: stop_world)
  ultimately show ?thesis
    using stop_terminates [of "fst (stop self s)" h "snd (stop self s)"]
      stop_terminates [OF assms]
    by simp
qed

lemma stop_example:
  "stop example_worker example_started =
     (example_worker\<lparr>client := None\<rparr>,
      example_started
        \<lparr>procs := [(example_popen ''50000'')\<lparr>running := False, terminate_calls := Suc 0\<rparr>],
         clients := [\<lparr>host = ''localhost'', channel_port = 50000, closed = True\<rparr>]\<rparr>)"
  by (simp add: stop_def close_def terminate_def example_worker_def example_started_def
      example_world_def example_popen_def)

lemma stop_stop_example:
  "stop (example_worker\<lparr>client := None\<rparr>)
     (example_started
        \<lparr>procs := [(example_popen ''50000'')\<lparr>running := False, terminate_calls := Suc 0\<rparr>],
         clients := [\<lparr>host = ''localhost'', channel_port = 50000, closed = True\<rparr>]\<rparr>) =
     (example_worker\<lparr>client := None\<rparr>,
      example_started
        \<lparr>procs := [(example_popen ''50000'')\<lparr>running := False, terminate_calls := 2\<rparr>],
         clients := [\<lparr>host = ''localhost'', channel_port = 50000, closed = True\<rparr>]\<rparr>)"
  by (simp add: stop_def close_def terminate_def example_worker_def example_started_def
      example_world_def example_popen_def)

lemma example_worker_fields:
  "proccess example_worker = Some 0" "client example_worker = Some 0"
  "port example_worker = Some 50000" "view example_worker = example_view"
  by (simp_all add: example_worker_def)

lemma restart_example:
  "restart example_worker example_started =
     Inr (example_worker\<lparr>port := Some 50001, proccess := Some 1, client := Some 1\<rparr>,
          example_started
            \<lparr>sockets := 2,
             procs := [example_popen ''50000'', example_popen ''50001''],
             clients := [\<lparr>host = ''localhost'', channel_port = 50000, closed = False\<rparr>,
                         \<lparr>host = ''localhost'', channel_port = 50001, closed = False\<rparr>]\<rparr>)"
  using restart_returns [OF example_worker_name, of example_started]
  by (simp add: example_worker_def example_started_def example_world_def example_popen_def
      example_view_def example_window_def get_settings_def str_int_50001 str_int_4242
      example_script_quoted)

lemma restart_stopped_example:
  "restart (example_worker\<lparr>client := None\<rparr>)
     (example_started
        \<lparr>procs := [(example_popen ''50000'')\<lparr>running := False, terminate_calls := Suc 0\<rparr>],
         clients := [\<lparr>host = ''localhost'', channel_port = 50000, closed = True\<rparr>]\<rparr>) =
     Inr (example_worker\<lparr>port := Some 50001, proccess := Some 1, client := Some 1\<rparr>,
          example_started
            \<lparr>sockets := 2,
             procs := [(example_popen ''50000'')\<lparr>running := False, terminate_calls := Suc 0\<rparr>,
                       example_popen ''50001''],
             clients := [\<lparr>host = ''localhost'', channel_port = 50000, closed = True\<rparr>,
                         \<lparr>host = ''localhost'', channel_port = 50001, closed = False\<rparr>]\<rparr>)"
proof -
  have "generate_project_name (window (view (example_worker\<lparr>client := None\<rparr>))) = Inr ''proj''"
    using example_worker_name by simp
  from restart_returns [OF this] show ?thesis
    by (simp add: example_worker_def example_started_def example_world_def example_popen_def
      example_view_def example_window_def get_settings_def str_int_50001 str_int_4242
      example_script_quoted)
qed

lemma example_popen_fields:
  "running (example_popen p)" "terminate_calls (example_popen p) = 0"
  by (simp_all add: example_popen_def)

lemma Worker_init_returns:
  assumes "generate_project_name (window v) = Inr project_name"
  shows "\<exists>new s1. Worker_init v s = Inr (new, s1)"
proof -
  have "generate_project_name
          (window (view \<lparr>view = v, client = None, proccess = None,
                         process = None, port = None\<rparr>)) = Inr project_name"
    using assms by simp
  from restart_returns [OF this, of s] show ?thesis
    by (simp add: Worker_init_def)
qed


lemma example_view_window_id: "window_id (window example_view) = 7"
  by (simp add: example_view_def example_window_def)




lemma single_thread_lookup:
  "run [0, 0, 0, 0, 0] (enter [v] reg s) =
     (case lookup v reg s of
        Inl (e, reg', s') \<Rightarrow>
          \<lparr>WORKERS = reg', WORKERS_LOCK = None, threads = [(v, Raised e)], os = s'\<rparr>
      | Inr (found, reg', s') \<Rightarrow>
          \<lparr>WORKERS = reg', WORKERS_LOCK = None, threads = [(v, Returned found)], os = s'\<rparr>)"
proof (cases "reg (window_id (window v))")
  case (Some w)
  then show ?thesis
    by (simp add: lookup_def and_then_def enter_def step_def goto_def)
next
  case None
  show ?thesis
  proof (cases "Worker_init v s")
    case (Inl r)
    then show ?thesis
      using None
      by (cases r) (simp add: lookup_def and_then_def enter_def step_def goto_def)
  next
    case (Inr r)
    then show ?thesis
      using None
      by (cases r) (simp add: lookup_def and_then_def enter_def step_def goto_def)
  qed
qed

lemma Worker_init_example_again:
  "Worker_init example_view example_started =
     Inr (example_worker\<lparr>port := Some 50001, proccess := Some 1, client := Some 1\<rparr>,
          example_started
            \<lparr>sockets := 2,
             procs := [example_popen ''50000'', example_popen ''50001''],
             clients := [\<lparr>host = ''localhost'', channel_port = 50000, closed = False\<rparr>,
                         \<lparr>host = ''localhost'', channel_port = 50001, closed = False\<rparr>]\<rparr>)"
proof -
  have "generate_project_name
          (window (view \<lparr>view = example_view, client = None, proccess = None,
                         process = None, port = None\<rparr>)) = Inr ''proj''"
    by (simp add: example_view_def example_project_name)
  from restart_returns [OF this, of example_started] show ?thesis
    by (simp add: Worker_init_def example_worker_def example_started_def
        example_world_def example_popen_def example_view_def example_window_def
        get_settings_def str_int_50001 str_int_4242 example_script_quoted)
qed

lemma payload_failed: "failed_response r \<Longrightarrow> payload r key = Inr PNone"
  by (cases r) (auto simp: payload_def and_then_def split: option.splits)

lemma payload_success:
  assumes "map_of kvs ''success'' = Some (PBool True)" and "map_of kvs key = Some v"
  shows "payload (PDict kvs) key = Inr v"
proof -
  have "kvs \<noteq> []" using assms(1) by auto
  then show ?thesis using assms by (simp add: payload_def and_then_def)
qed

lemma autocomplete_unfold:
  "client self = Some c \<Longrightarrow>
   autocomplete self location s =
     (case payload (backend s c ''autocomplete'' (autocomplete_data (view self) location))
             ''completions'' of
        Inl e \<Rightarrow>
          Inl (e, snd (request c ''autocomplete'' (autocomplete_data (view self) location) s))
      | Inr r \<Rightarrow>
          Inr (r, snd (request c ''autocomplete'' (autocomplete_data (view self) location) s)))"
  by (simp add: autocomplete_def executor_def request_def Let_def split: sum.splits)

lemma run_linter_unfold:
  "client self = Some c \<Longrightarrow>
   run_linter self code settings filename s =
     (case payload (backend s c ''run_linter''
                  [(''code'', code), (''settings'', settings), (''filename'', filename)])
             ''errors'' of
        Inl e \<Rightarrow>
          Inl (e, snd (request c ''run_linter''
                  [(''code'', code), (''settings'', settings), (''filename'', filename)] s))
      | Inr r \<Rightarrow>
          Inr (r, snd (request c ''run_linter''
                  [(''code'', code), (''settings'', settings), (''filename'', filename)] s)))"
  by (simp add: run_linter_def executor_def request_def Let_def split: sum.splits)

lemma example_autocomplete_data:
  "autocomplete_data example_view 13 =
     [(''source'', PStr (''import os'' @ [CHR 0x0A] @ ''os.'')), (''line'', PInt 2),
      (''offset'', PInt 3), (''filename'', PStr [])]"
  by (simp add: autocomplete_data_def rowcol_def substr_def view_size_def example_view_def)

lemma autocomplete_data_fields:
  "autocomplete_data v location =
     [(''source'', PStr (buffer v)),
      (''line'', PInt (1 + int (count_list (take location (buffer v)) (CHR 0x0A)))),
      (''offset'', PInt (int (length (takeWhile (\<lambda>c. c \<noteq> CHR 0x0A)
                                    (rev (take location (buffer v))))))),
      (''filename'', PStr (case file_name v of None \<Rightarrow> [] | Some f \<Rightarrow> f))]"
  by (simp add: autocomplete_data_def rowcol_def substr_def view_size_def Let_def
      split: option.splits)



lemma spaced_script_quoted:
  "pipes_quote spaced_script = [CHR 0x27] @ spaced_script @ [CHR 0x27]"
  by (simp add: pipes_quote_def spaced_script_def safe_char_def)

lemma spaced_script_differs: "[CHR 0x27] @ spaced_script @ [CHR 0x27] \<noteq> spaced_script"
  by (simp add: spaced_script_def)

section \<open>Project-name derivation\<close>

text \<open>
  A path without \<open>/\<close>, as the editor reports every path on Windows, makes
  \<open>generate_project_name\<close> raise IndexError.
\<close>

lemma generate_project_name_no_slash:
  "generate_project_name
     \<lparr>window_id = 7, project_file_name = None,
      folders = [''C:'' @ [CHR 0x5C] @ ''Users'' @ [CHR 0x5C] @ ''u'' @ [CHR 0x5C] @ ''myrepo''],
      view_settings = []\<rparr> = Inl IndexError"
  by (simp add: generate_project_name_def and_then_def getitem_def rsplit1_def)

text \<open>
  C5, as amended. For a window with a project file whose path contains \<open>/\<close>,
  \<open>generate_project_name\<close> returns the part of the file's base name before its first
  \<open>.\<close>; for a window with no project file and a first workspace folder whose path
  contains \<open>/\<close>, that folder's base name; for a window with neither a project file
  nor a folder, \<open>anaconda-\<close> followed by the window id in decimal.
\<close>

theorem generate_project_name_derivation:
  "(project_file_name w = Some p \<and> CHR ''/'' \<in> set p \<longrightarrow>
      generate_project_name w = Inr (before_first_dot (basename p))) \<and>
   (project_file_name w = None \<and> folders w = f # fs \<and> CHR ''/'' \<in> set f \<longrightarrow>
      generate_project_name w = Inr (basename f)) \<and>
   (project_file_name w = None \<and> folders w = [] \<longrightarrow>
      generate_project_name w = Inr (''anaconda-'' @ str_int (window_id w)))"
proof (intro conjI impI)
  assume "project_file_name w = Some p \<and> CHR ''/'' \<in> set p"
  then show "generate_project_name w = Inr (before_first_dot (basename p))"
    by (simp add: generate_project_name_def and_then_def getitem_rsplit1_found
        getitem_split_0 before_first_dot_def basename_def)
next
  assume "project_file_name w = None \<and> folders w = f # fs \<and> CHR ''/'' \<in> set f"
  then show "generate_project_name w = Inr (basename f)"
    by (simp add: generate_project_name_def and_then_def getitem_rsplit1_found
        getitem_Cons_0 basename_def)
next
  assume "project_file_name w = None \<and> folders w = []"
  then show "generate_project_name w = Inr (''anaconda-'' @ str_int (window_id w))"
    by (simp add: generate_project_name_def)
qed

text \<open>The three windows of the specification's examples.\<close>

theorem generate_project_name_derivation_witness:
  "generate_project_name
     \<lparr>window_id = 7, project_file_name = Some ''/home/u/proj.sublime-project'',
      folders = [], view_settings = []\<rparr> = Inr ''proj'' \<and>
   generate_project_name
     \<lparr>window_id = 7, project_file_name = None, folders = [''/home/u/myrepo''],
      view_settings = []\<rparr> = Inr ''myrepo'' \<and>
   generate_project_name
     \<lparr>window_id = 7, project_file_name = None, folders = [], view_settings = []\<rparr> =
     Inr ''anaconda-7''"
  using
    generate_project_name_derivation
      [of "\<lparr>window_id = 7, project_file_name = Some ''/home/u/proj.sublime-project'',
            folders = [], view_settings = []\<rparr>" "''/home/u/proj.sublime-project''"]
    generate_project_name_derivation
      [of "\<lparr>window_id = 7, project_file_name = None, folders = [''/home/u/myrepo''],
            view_settings = []\<rparr>" _ "''/home/u/myrepo''" "[]"]
    generate_project_name_derivation
      [of "\<lparr>window_id = 7, project_file_name = None, folders = [], view_settings = []\<rparr>"]
  by (simp add: before_first_dot_def basename_def str_int_7)

text \<open>
  C5 as the specification states it fails on a project file whose base name has a
  second \<open>.\<close>: stripping directory and extension from
  \<open>/home/u/my.proj.sublime-project\<close> leaves \<open>my.proj\<close>, and the code returns \<open>my\<close>.
\<close>

theorem project_name_second_dot_counterexample:
  "generate_project_name
     \<lparr>window_id = 7, project_file_name = Some ''/home/u/my.proj.sublime-project'',
      folders = [], view_settings = []\<rparr> = Inr ''my'' \<and>
   strip_extension (basename ''/home/u/my.proj.sublime-project'') = ''my.proj''"
  by (simp add: generate_project_name_def and_then_def getitem_def rsplit1_def
      strip_extension_def basename_def)

section \<open>The backend's command line\<close>

text \<open>
  Whenever the project name can be derived, \<open>start_worker\<close> spawns one process, and
  its command line is the interpreter, \<open>-B\<close>, what \<open>pipes.quote\<close> returns for the
  backend's entry path, \<open>-p\<close>, the project name, the port just allocated, then \<open>-e\<close>
  and the path for every non-empty element of the comma-separated \<open>extra_paths\<close>, and
  last the plugin's own process id, in this order.
\<close>

lemma start_worker_command_line:
  assumes "generate_project_name (window (view self)) = Inr project_name"
  shows "\<exists>self' s' p.
     start_worker self s = Inr (length (procs s), self', s') \<and>
     procs s' = procs s @ [p] \<and>
     args p =
       [get_settings (window (view self)) ''python_interpreter'' ''python'',
        ''-B'', pipes_quote (script_path s), ''-p'', project_name,
        str_int (free_ports s (sockets s))] @
       concat (map (\<lambda>e. [''-e'', e])
         (filter (\<lambda>e. e \<noteq> [])
           (split CHR '','' (get_settings (window (view self)) ''extra_paths'' [])))) @
       [str_int (getpid s)]"
  by (simp add: start_worker_returns [OF assms])

lemma start_worker_command_line_example:
  "generate_project_name (window (view example_worker)) = Inr ''proj'' \<and>
   (case start_worker example_worker example_started of
      Inl e \<Rightarrow> False
    | Inr (h, self', s') \<Rightarrow>
        h = 1 \<and> 
        map args (procs s') =
          [[''python'', ''-B'', ''/opt/st3/Packages/anaconda/anaconda_server/jsonserver.py'',
            ''-p'', ''proj'', ''50000'', ''-e'', ''/opt/lib'', ''-e'', ''/srv/py'', ''4242''],
           [''python'', ''-B'', ''/opt/st3/Packages/anaconda/anaconda_server/jsonserver.py'',
            ''-p'', ''proj'', ''50001'', ''-e'', ''/opt/lib'', ''-e'', ''/srv/py'', ''4242'']])"
proof -
  have name: "generate_project_name (window (view example_worker)) = Inr ''proj''"
    by (simp add: example_worker_def example_view_def example_project_name)
  show ?thesis
    using name start_worker_command_line [OF name, of example_started]
    by (auto simp: example_worker_def example_view_def example_started_def
        example_world_def example_popen_def example_window_def get_settings_def
        str_int_50001 str_int_4242 example_script_quoted)
qed

text \<open>
  C7 on the code. The order of the arguments is the one the specification gives, but
  the third argument is not the backend's entry path: \<open>start_worker\<close> passes the path
  through \<open>pipes.quote\<close> and hands the result to \<open>Popen\<close> in an argument list, which no
  shell reads. With the plugin installed under a directory whose name has a space, the
  Worker constructed for the example view spawns its backend with the entry path
  wrapped in single quotes, a file name that differs from the entry path.
\<close>

theorem entry_path_is_passed_quoted:
  "script_path spaced_world = spaced_script \<and>
   (case Worker_init example_view spaced_world of
      Inl r \<Rightarrow> False
    | Inr (self', s') \<Rightarrow>
        map args (procs s') =
          [[''python'', ''-B'', [CHR 0x27] @ spaced_script @ [CHR 0x27], ''-p'', ''proj'',
            ''50000'', ''-e'', ''/opt/lib'', ''-e'', ''/srv/py'', ''4242'']] \<and>
        args (procs s' ! 0) ! 2 \<noteq> script_path spaced_world)"
proof -
  have "generate_project_name
          (window (view \<lparr>view = example_view, client = None, proccess = None,
                         process = None, port = None\<rparr>)) = Inr ''proj''"
    by (simp add: example_view_def example_project_name)
  from restart_returns [OF this, of spaced_world] show ?thesis
    using spaced_script_differs
    by (simp add: Worker_init_def spaced_world_def example_world_def example_view_def
        example_window_def get_settings_def str_int_50000 str_int_4242
        spaced_script_quoted)
qed

section \<open>Stopping and restarting\<close>



text \<open>
  C2 on the code. \<open>stop()\<close> leaves \<open>self.proccess\<close> set, since its last line assigns
  \<open>self.process\<close>; a second \<open>stop()\<close> therefore calls \<open>terminate()\<close> on the same
  process once more. On the Worker constructed for the example view, the process has
  received one \<open>terminate()\<close> after the first \<open>stop()\<close> and two after the second.
\<close>

theorem second_stop_terminates_again:
  "Worker_init example_view example_world = Inr (example_worker, example_started) \<and>
   (case stop example_worker example_started of
      (w1, s1) \<Rightarrow>
        client w1 = None \<and> proccess w1 = Some 0 \<and>
        map running (procs s1) = [False] \<and>
        map terminate_calls (procs s1) = [1] \<and>
        (case stop w1 s1 of
           (w2, s2) \<Rightarrow> proccess w2 = Some 0 \<and> map terminate_calls (procs s2) = [2]))"
  by (simp add: Worker_init_example stop_example stop_stop_example example_worker_fields)

text \<open>
  C3 on the code. \<open>restart()\<close> starts a new backend and opens a new channel without
  stopping anything. On the Worker constructed for the example view, which holds a
  running process, \<open>restart()\<close> leaves two running processes, neither ever terminated,
  and two open channels; \<open>stop()\<close> followed by \<open>restart()\<close> leaves the first process
  terminated and the first channel closed.
\<close>

theorem restart_leaves_old_backend_running:
  "Worker_init example_view example_world = Inr (example_worker, example_started) \<and>
   (case restart example_worker example_started of
      Inl e \<Rightarrow> False
    | Inr (self', s') \<Rightarrow>
        proccess self' = Some 1 \<and> client self' = Some 1 \<and>
        map running (procs s') = [True, True] \<and>
        map terminate_calls (procs s') = [0, 0] \<and>
        map closed (clients s') = [False, False]) \<and>
   (case restart (fst (stop example_worker example_started))
           (snd (stop example_worker example_started)) of
      Inl e \<Rightarrow> False
    | Inr (self', s') \<Rightarrow>
        map running (procs s') = [False, True] \<and>
        map closed (clients s') = [True, False])"
  by (simp add: Worker_init_example restart_example stop_example restart_stopped_example
      example_popen_fields)

section \<open>Lookups\<close>




text \<open>
  C1 on the code. \<open>lookup\<close> tests for absence once, outside the lock, and does not test
  again inside it. Two threads look up the same window in an empty registry and both
  pass the test before either takes the lock: each then constructs a Worker in its
  turn under the lock. Two sockets are bound, two backends run, two channels are open;
  the first thread has returned the first Worker, and the registry holds the second.
\<close>

theorem concurrent_lookups_construct_two_workers:
  "(let sys = run [0, 1, 0, 0, 0, 0, 1, 1, 1, 1]
               (enter [example_view, example_view] Map.empty example_world)
    in map snd (threads sys) =
         [Returned example_worker,
          Returned (example_worker\<lparr>port := Some 50001, proccess := Some 1, client := Some 1\<rparr>)] \<and>
       WORKERS sys 7 =
         Some (example_worker\<lparr>port := Some 50001, proccess := Some 1, client := Some 1\<rparr>) \<and>
       port example_worker \<noteq> Some 50001 \<and>
       WORKERS_LOCK sys = None \<and>
       sockets (os sys) = 2 \<and>
       map running (procs (os sys)) = [True, True] \<and>
       map closed (clients (os sys)) = [False, False])"
  by (simp add: enter_def step_def goto_def Worker_init_example Worker_init_example_again
      example_view_window_id example_popen_fields example_worker_fields)

section \<open>Completion and lint requests\<close>

text \<open>
  C4. On a Worker that holds a channel, an \<open>autocomplete\<close> call whose response is
  absent or carries a success flag other than \<open>True\<close> returns \<open>None\<close> and raises
  nothing; so does a \<open>run_linter\<close> call.
\<close>

theorem failed_response_gives_None:
  assumes "client self = Some c"
  shows
    "(failed_response (backend s c ''autocomplete'' (autocomplete_data (view self) location)) \<longrightarrow>
        autocomplete self location s =
          Inr (PNone, snd (request c ''autocomplete'' (autocomplete_data (view self) location) s))) \<and>
     (failed_response (backend s c ''run_linter''
          [(''code'', code), (''settings'', settings), (''filename'', filename)]) \<longrightarrow>
        run_linter self code settings filename s =
          Inr (PNone, snd (request c ''run_linter''
             [(''code'', code), (''settings'', settings), (''filename'', filename)] s)))"
  by (simp add: autocomplete_unfold [OF assms] run_linter_unfold [OF assms] payload_failed)

text \<open>
  The specification's example: \<open>run_linter\<close> of \<open>x=1\<close>, no settings and \<open>a.py\<close>
  against a backend that answers \<open>{success: false}\<close>, and a completion request that
  gets no response.
\<close>

theorem failed_response_gives_None_witness:
  "client example_worker = Some 0 \<and>
   failed_response (backend (example_started\<lparr>backend := failing_backend\<rparr>) 0 ''autocomplete''
      (autocomplete_data (view example_worker) 13)) \<and>
   failed_response (backend (example_started\<lparr>backend := failing_backend\<rparr>) 0 ''run_linter''
      [(''code'', PStr ''x=1''), (''settings'', PDict []), (''filename'', PStr ''a.py'')]) \<and>
   (case autocomplete example_worker 13 (example_started\<lparr>backend := failing_backend\<rparr>) of
      Inl e \<Rightarrow> False | Inr (r, s') \<Rightarrow> r = PNone) \<and>
   (case run_linter example_worker (PStr ''x=1'') (PDict []) (PStr ''a.py'')
           (example_started\<lparr>backend := failing_backend\<rparr>) of
      Inl e \<Rightarrow> False | Inr (r, s') \<Rightarrow> r = PNone)"
  using failed_response_gives_None
    [where self = example_worker and c = 0
       and s = "example_started\<lparr>backend := failing_backend\<rparr>" and location = 13
       and code = "PStr ''x=1''" and settings = "PDict []" and filename = "PStr ''a.py''"]
  by (simp add: example_worker_fields failing_backend_def)

text \<open>
  C8. On a Worker that holds a channel, an \<open>autocomplete\<close> call whose response is a
  dictionary with \<open>success\<close> equal to \<open>True\<close> returns exactly the value the response
  holds under \<open>completions\<close>.
\<close>

theorem successful_response_gives_completions:
  assumes "client self = Some c"
    and "backend s c ''autocomplete'' (autocomplete_data (view self) location) = PDict kvs"
    and "map_of kvs ''success'' = Some (PBool True)"
    and "map_of kvs ''completions'' = Some completions"
  shows "autocomplete self location s =
           Inr (completions,
                snd (request c ''autocomplete'' (autocomplete_data (view self) location) s))"
  by (simp add: autocomplete_unfold [OF assms(1)] assms(2) payload_success [OF assms(3,4)])

text \<open>
  The specification's example: the backend answers \<open>path\<close> and \<open>getcwd\<close>, and these
  are returned.
\<close>

theorem successful_response_gives_completions_witness:
  "client example_worker = Some 0 \<and>
   backend example_started 0 ''autocomplete'' (autocomplete_data (view example_worker) 13) =
     PDict [(''success'', PBool True),
            (''completions'', PList [PStr ''path'', PStr ''getcwd''])] \<and>
   (case autocomplete example_worker 13 example_started of
      Inl e \<Rightarrow> False
    | Inr (r, s') \<Rightarrow> r = PList [PStr ''path'', PStr ''getcwd''])"
  using successful_response_gives_completions
    [where self = example_worker and c = 0 and s = example_started and location = 13
       and kvs = "[(''success'', PBool True),
                   (''completions'', PList [PStr ''path'', PStr ''getcwd''])]"
       and completions = "PList [PStr ''path'', PStr ''getcwd'']"]
  by (simp add: example_worker_fields example_started_def example_world_def
      example_backend_def)

text \<open>
  C9. For every cursor location, the request that \<open>autocomplete\<close> sends on the Worker's
  channel is named \<open>autocomplete\<close> and carries four fields in this order: \<open>source\<close>,
  the whole buffer; \<open>line\<close>, the row of the location plus one, that is one plus the
  number of newlines before it, hence at least 1; \<open>offset\<close>, the column of the
  location, that is the number of characters between the last newline before it and
  the location itself; \<open>filename\<close>, the view's file name, or the empty string when it
  has none. The backend is asked with exactly these fields and they are what is
  recorded as sent, whether the response then yields a result or an exception.
\<close>

theorem autocomplete_request_fields:
  assumes "client self = Some c"
  shows
    "autocomplete_data (view self) location =
       [(''source'', PStr (buffer (view self))),
        (''line'', PInt (int (fst (rowcol (view self) location)) + 1)),
        (''offset'', PInt (int (snd (rowcol (view self) location)))),
        (''filename'', PStr (case file_name (view self) of None \<Rightarrow> [] | Some f \<Rightarrow> f))] \<and>
     fst (rowcol (view self) location) =
       count_list (take location (buffer (view self))) (CHR 0x0A) \<and>
     snd (rowcol (view self) location) =
       length (takeWhile (\<lambda>c. c \<noteq> CHR 0x0A) (rev (take location (buffer (view self))))) \<and>
     1 \<le> int (fst (rowcol (view self) location)) + 1 \<and>
     autocomplete self location s =
       (case payload (backend s c ''autocomplete'' (autocomplete_data (view self) location))
               ''completions'' of
          Inl e \<Rightarrow>
            Inl (e, s\<lparr>sent := sent s @
                   [(c, ''autocomplete'', autocomplete_data (view self) location)]\<rparr>)
        | Inr r \<Rightarrow>
            Inr (r, s\<lparr>sent := sent s @
                   [(c, ''autocomplete'', autocomplete_data (view self) location)]\<rparr>))"
  by (simp add: autocomplete_unfold [OF assms] request_def autocomplete_data_fields
      rowcol_def Let_def split: sum.splits)

text \<open>
  The cursor at the end of \<open>import os\<close>, newline, \<open>os.\<close> in a view without a file:
  line 2, offset 3, empty file name.
\<close>

theorem autocomplete_request_fields_witness:
  "client example_worker = Some 0 \<and>
   autocomplete_data (view example_worker) 13 =
     [(''source'', PStr (''import os'' @ [CHR 0x0A] @ ''os.'')), (''line'', PInt 2),
      (''offset'', PInt 3), (''filename'', PStr [])] \<and>
   autocomplete example_worker 13 example_started =
     Inr (PList [PStr ''path'', PStr ''getcwd''],
          example_started
            \<lparr>sent := [(0, ''autocomplete'',
               [(''source'', PStr (''import os'' @ [CHR 0x0A] @ ''os.'')), (''line'', PInt 2),
                (''offset'', PInt 3), (''filename'', PStr [])])]\<rparr>)"
proof -
  have c: "client example_worker = Some 0"
    by (simp add: example_worker_fields)
  have b: "backend example_started 0 ''autocomplete'' d =
      PDict [(''success'', PBool True),
             (''completions'', PList [PStr ''path'', PStr ''getcwd''])]" for d
    by (simp add: example_started_def example_world_def example_backend_def)
  have p: "payload (PDict [(''success'', PBool True),
             (''completions'', PList [PStr ''path'', PStr ''getcwd''])]) ''completions'' =
           Inr (PList [PStr ''path'', PStr ''getcwd''])"
    by (simp add: payload_def and_then_def)
  have s: "sent example_started = []"
    by (simp add: example_started_def example_world_def)
  show ?thesis
    using autocomplete_request_fields [OF c, of 13 example_started]
    by (simp add: c b p s example_worker_fields example_autocomplete_data)
qed

end
